theory Spec2Isabelle
  imports Main "HOL-Library.Sublist"
begin

section \<open>Python values and the operations the program applies to them\<close>

text \<open>
  The program (\<^verbatim>\<open>tiktok.py\<close>) handles the values that \<^verbatim>\<open>json.loads\<close> and
  \<^verbatim>\<open>response.json()\<close> return: \<^verbatim>\<open>None\<close>, booleans, numbers, strings, lists and
  dictionaries with string keys. A dictionary is an association list read with
  \<open>map_of\<close>. Numbers are integers here: the program only ever tests a number for
  truthiness. Strings are lists of characters with code points below 256; every
  literal of the program is ASCII.
\<close>

datatype json =
    JNull
  | JBool bool
  | JNum int
  | JStr string
  | JArr "json list"
  | JObj "(string \<times> json) list"

type_synonym py_dict = "(string \<times> json) list"

text \<open>The exceptions that the modelled code can raise, by class.\<close>

datatype py_exception =
    RequestException
  | JSONDecodeError
  | AttributeError
  | KeyError
  | IndexError
  | TypeError

definition bind_exc :: "py_exception + 'a \<Rightarrow> ('a \<Rightarrow> py_exception + 'b) \<Rightarrow> py_exception + 'b" where
  "bind_exc m f = (case m of Inl e \<Rightarrow> Inl e | Inr v \<Rightarrow> f v)"

text \<open>Python truthiness (\<^verbatim>\<open>if x\<close>, \<^verbatim>\<open>x and y\<close>).\<close>

fun py_truthy :: "json \<Rightarrow> bool" where
  "py_truthy JNull = False"
| "py_truthy (JBool b) = b"
| "py_truthy (JNum n) = (n \<noteq> 0)"
| "py_truthy (JStr s) = (s \<noteq> [])"
| "py_truthy (JArr xs) = (xs \<noteq> [])"
| "py_truthy (JObj kvs) = (kvs \<noteq> [])"

text \<open>\<^verbatim>\<open>x.get(key)\<close>: only a dictionary has the method; a missing key gives \<^verbatim>\<open>None\<close>.\<close>

fun py_get :: "json \<Rightarrow> string \<Rightarrow> py_exception + json" where
  "py_get (JObj kvs) k = Inr (case map_of kvs k of None \<Rightarrow> JNull | Some v \<Rightarrow> v)"
| "py_get _ k = Inl AttributeError"

text \<open>\<^verbatim>\<open>x[key]\<close> with a string key.\<close>

fun py_key :: "json \<Rightarrow> string \<Rightarrow> py_exception + json" where
  "py_key (JObj kvs) k = (case map_of kvs k of None \<Rightarrow> Inl KeyError | Some v \<Rightarrow> Inr v)"
| "py_key _ k = Inl TypeError"

text \<open>
  \<^verbatim>\<open>x[0]\<close>: the first element of a list, the first character of a string (as a
  string), a \<^verbatim>\<open>KeyError\<close> on a dictionary (its keys are strings), a
  \<^verbatim>\<open>TypeError\<close> on anything else.
\<close>

fun py_first :: "json \<Rightarrow> py_exception + json" where
  "py_first (JArr []) = Inl IndexError"
| "py_first (JArr (x # xs)) = Inr x"
| "py_first (JStr []) = Inl IndexError"
| "py_first (JStr (c # cs)) = Inr (JStr [c])"
| "py_first (JObj kvs) = Inl KeyError"
| "py_first _ = Inl TypeError"

section \<open>The LLM gateway: \<^verbatim>\<open>call_gemini_api\<close>\<close>

text \<open>
  What lies outside the program is a parameter of the model: the reply of
  \<^verbatim>\<open>requests.post\<close> to a payload (an exception, such as a failed connection or
  the timeout of 45 seconds, or a response; the URL and the header are constants
  of the program), the parser
  \<^verbatim>\<open>json.loads\<close> (\<open>None\<close> where it raises \<^verbatim>\<open>JSONDecodeError\<close>), and the text
  that \<^verbatim>\<open>str\<close> gives for a value or an exception.
\<close>

record response =
  status_code :: nat
  body :: string

record environment =
  post :: "json \<Rightarrow> py_exception + response"
  loads :: "string \<Rightarrow> json option"
  str_value :: "json \<Rightarrow> string"
  str_exception :: "py_exception \<Rightarrow> string"

definition build_payload :: "string \<Rightarrow> json \<Rightarrow> json" where
  "build_payload prompt_text response_schema =
     (let chat_history = JArr [JObj [(''role'', JStr ''user''),
                                     (''parts'', JArr [JObj [(''text'', JStr prompt_text)]])]]
      in JObj [(''contents'', chat_history),
               (''generationConfig'',
                  (if py_truthy response_schema
                   then JObj [(''responseMimeType'', JStr ''application/json''),
                              (''responseSchema'', response_schema)]
                   else JObj [(''responseMimeType'', JStr ''text/plain'')]))])"

text \<open>\<^verbatim>\<open>response.raise_for_status()\<close> raises \<^verbatim>\<open>HTTPError\<close>, a
  \<^verbatim>\<open>RequestException\<close>, on a status from 400 to 599.\<close>

definition raise_for_status :: "response \<Rightarrow> py_exception + unit" where
  "raise_for_status r =
     (if 400 \<le> status_code r \<and> status_code r < 600 then Inl RequestException else Inr ())"

text \<open>\<^verbatim>\<open>response.json()\<close> parses the body with the same parser; a body that is
  not JSON raises a \<^verbatim>\<open>JSONDecodeError\<close>.\<close>

definition response_json :: "environment \<Rightarrow> response \<Rightarrow> py_exception + json" where
  "response_json env r = (case loads env (body r) of None \<Rightarrow> Inl JSONDecodeError | Some v \<Rightarrow> Inr v)"

text \<open>\<^verbatim>\<open>json.loads(x)\<close>: a \<^verbatim>\<open>TypeError\<close> when \<open>x\<close> is not a string.\<close>

fun json_loads :: "environment \<Rightarrow> json \<Rightarrow> py_exception + json" where
  "json_loads env (JStr s) = (case loads env s of None \<Rightarrow> Inl JSONDecodeError | Some v \<Rightarrow> Inr v)"
| "json_loads env _ = Inl TypeError"

text \<open>
  The condition of line 61,
  \<^verbatim>\<open>result.get("candidates") and result["candidates"][0].get("content") and
  result["candidates"][0]["content"].get("parts")\<close>,
  evaluated left to right with short-circuiting; the value is its truthiness.
\<close>

definition has_parts :: "json \<Rightarrow> py_exception + bool" where
  "has_parts result =
     bind_exc (py_get result ''candidates'') (\<lambda>c.
       if \<not> py_truthy c then Inr False
       else
         bind_exc (py_key result ''candidates'') (\<lambda>cs.
         bind_exc (py_first cs) (\<lambda>c0.
         bind_exc (py_get c0 ''content'') (\<lambda>ct.
           if \<not> py_truthy ct then Inr False
           else
             bind_exc (py_key result ''candidates'') (\<lambda>cs'.
             bind_exc (py_first cs') (\<lambda>c0'.
             bind_exc (py_key c0' ''content'') (\<lambda>ct'.
             bind_exc (py_get ct' ''parts'') (\<lambda>ps.
               Inr (py_truthy ps)))))))))"

text \<open>\<^verbatim>\<open>result["candidates"][0]["content"]["parts"][0]["text"]\<close> (line 62).\<close>

definition response_text :: "json \<Rightarrow> py_exception + json" where
  "response_text result =
     bind_exc (py_key result ''candidates'') (\<lambda>cs.
     bind_exc (py_first cs) (\<lambda>c0.
     bind_exc (py_key c0 ''content'') (\<lambda>ct.
     bind_exc (py_key ct ''parts'') (\<lambda>ps.
     bind_exc (py_first ps) (\<lambda>p0.
       py_key p0 ''text'')))))"

text \<open>Lines 59 to 70: from the parsed reply to the returned value; \<open>JNull\<close> is
  Python's \<^verbatim>\<open>None\<close>.\<close>

definition extract_reply :: "environment \<Rightarrow> json \<Rightarrow> json \<Rightarrow> py_exception + json" where
  "extract_reply env response_schema result =
     bind_exc (has_parts result) (\<lambda>ok.
       if ok then
         bind_exc (response_text result) (\<lambda>txt.
           if py_truthy response_schema then json_loads env txt else Inr txt)
       else Inr JNull)"

text \<open>
  \<^verbatim>\<open>call_gemini_api\<close>. Each \<^verbatim>\<open>except\<close> clause prints and re-raises, so an
  exception of the body is the exception of the call.
\<close>

definition call_gemini_api :: "environment \<Rightarrow> string \<Rightarrow> json \<Rightarrow> py_exception + json" where
  "call_gemini_api env prompt_text response_schema =
     bind_exc (post env (build_payload prompt_text response_schema)) (\<lambda>r.
     bind_exc (raise_for_status r) (\<lambda>_.
     bind_exc (response_json env r) (\<lambda>result.
       extract_reply env response_schema result)))"

section \<open>The prompt builders\<close>

definition squote :: string where
  "squote = [CHR 0x27]"

definition dquote :: string where
  "dquote = [CHR 0x22]"

text \<open>The f-string of lines 87 to 96 of \<^verbatim>\<open>generate_trends_with_llm\<close>.\<close>

definition trends_prompt :: "string \<Rightarrow> string \<Rightarrow> string \<Rightarrow> string" where
  "trends_prompt topic region_name region_code =
     ''As a social media trend analyst, generate a list of current top trending TikTok hashtags, '' @
     ''trending TikTok songs (with artist if possible), and top Google search trends '' @
     ''relevant to the topic '' @ squote @ topic @ squote @
     '' in the region '' @ squote @ region_name @ squote @ '' ('' @ region_code @ ''). '' @
     ''Provide the output in a JSON format with keys: 'tiktok_hashtags' (list of strings, e.g., ['#trend1', '#trend2']), '' @
     squote @ ''tiktok_songs' (list of objects with 'name' and 'artist' strings), '' @
     ''and 'google_trends' (list of strings). '' @
     ''Ensure there are at least 5-10 items for hashtags and songs, and 5 for Google trends. '' @
     ''Focus on recent and plausible trends. Avoid making up specific view counts, just list the names.''"

text \<open>The dictionary \<^verbatim>\<open>response_schema\<close> of lines 98 to 122.\<close>

definition trends_response_schema :: json where
  "trends_response_schema =
     JObj [(''type'', JStr ''OBJECT''),
           (''properties'',
              JObj [(''tiktok_hashtags'',
                       JObj [(''type'', JStr ''ARRAY''),
                             (''items'', JObj [(''type'', JStr ''STRING'')])]),
                    (''tiktok_songs'',
                       JObj [(''type'', JStr ''ARRAY''),
                             (''items'',
                                JObj [(''type'', JStr ''OBJECT''),
                                      (''properties'',
                                         JObj [(''name'', JObj [(''type'', JStr ''STRING'')]),
                                               (''artist'', JObj [(''type'', JStr ''STRING'')])]),
                                      (''required'', JArr [JStr ''name'', JStr ''artist''])])]),
                    (''google_trends'',
                       JObj [(''type'', JStr ''ARRAY''),
                             (''items'', JObj [(''type'', JStr ''STRING'')])])]),
           (''required'', JArr [JStr ''tiktok_hashtags'', JStr ''tiktok_songs'', JStr ''google_trends''])]"

definition generate_trends_with_llm ::
    "environment \<Rightarrow> string \<Rightarrow> string \<Rightarrow> string \<Rightarrow> py_exception + json" where
  "generate_trends_with_llm env topic region_name region_code =
     call_gemini_api env (trends_prompt topic region_name region_code) trends_response_schema"

text \<open>The keys a schema lists under \<^verbatim>\<open>"required"\<close> and under \<^verbatim>\<open>"properties"\<close>.\<close>

fun json_strings :: "json list \<Rightarrow> string list" where
  "json_strings [] = []"
| "json_strings (JStr s # vs) = s # json_strings vs"
| "json_strings (_ # vs) = json_strings vs"

fun required_keys :: "json \<Rightarrow> string list" where
  "required_keys (JObj kvs) =
     (case map_of kvs ''required'' of Some (JArr ks) \<Rightarrow> json_strings ks | _ \<Rightarrow> [])"
| "required_keys _ = []"

fun property_keys :: "json \<Rightarrow> string list" where
  "property_keys (JObj kvs) =
     (case map_of kvs ''properties'' of Some (JObj ps) \<Rightarrow> map fst ps | _ \<Rightarrow> [])"
| "property_keys _ = []"

text \<open>\<^verbatim>\<open>sep.join(xs)\<close> on a list of strings.\<close>

fun join_str :: "string \<Rightarrow> string list \<Rightarrow> string" where
  "join_str sep [] = []"
| "join_str sep [x] = x"
| "join_str sep (x # y # ys) = x @ sep @ join_str sep (y # ys)"

text \<open>
  Iterating a value: the elements of a list, the characters of a string, the keys
  of a dictionary; anything else is not iterable.
\<close>

fun py_iter :: "json \<Rightarrow> py_exception + json list" where
  "py_iter (JArr xs) = Inr xs"
| "py_iter (JStr s) = Inr (map (\<lambda>c. JStr [c]) s)"
| "py_iter (JObj kvs) = Inr (map (\<lambda>kv. JStr (fst kv)) kvs)"
| "py_iter _ = Inl TypeError"

fun the_strings :: "json list \<Rightarrow> py_exception + string list" where
  "the_strings [] = Inr []"
| "the_strings (JStr s # vs) = bind_exc (the_strings vs) (\<lambda>ss. Inr (s # ss))"
| "the_strings (_ # vs) = Inl TypeError"

text \<open>\<^verbatim>\<open>sep.join(v)\<close> on a value: a \<^verbatim>\<open>TypeError\<close> unless every item is a string.\<close>

definition py_join :: "string \<Rightarrow> json \<Rightarrow> py_exception + string" where
  "py_join sep v =
     bind_exc (py_iter v) (\<lambda>xs. bind_exc (the_strings xs) (\<lambda>ss. Inr (join_str sep ss)))"

text \<open>A value inside an f-string: a string as it is, anything else through \<^verbatim>\<open>str\<close>.\<close>

fun format_value :: "environment \<Rightarrow> json \<Rightarrow> string" where
  "format_value env (JStr s) = s"
| "format_value env v = str_value env v"

text \<open>\<^verbatim>\<open>f"'{s['name']}' by {s['artist']}"\<close> (line 138).\<close>

definition format_song :: "environment \<Rightarrow> json \<Rightarrow> py_exception + string" where
  "format_song env s =
     bind_exc (py_key s ''name'') (\<lambda>n.
     bind_exc (py_key s ''artist'') (\<lambda>a.
       Inr (squote @ format_value env n @ squote @ '' by '' @ format_value env a)))"

fun map_exc :: "('a \<Rightarrow> py_exception + 'b) \<Rightarrow> 'a list \<Rightarrow> py_exception + 'b list" where
  "map_exc f [] = Inr []"
| "map_exc f (x # xs) = bind_exc (f x) (\<lambda>y. bind_exc (map_exc f xs) (\<lambda>ys. Inr (y # ys)))"

text \<open>\<^verbatim>\<open>trend_data.get(key, [])\<close> on the dictionary \<open>trend_data\<close>.\<close>

definition get_or_empty :: "py_dict \<Rightarrow> string \<Rightarrow> json" where
  "get_or_empty trend_data k = (case map_of trend_data k of None \<Rightarrow> JArr [] | Some v \<Rightarrow> v)"

definition none_provided :: string where
  "none_provided = ''None provided.''"

text \<open>
  Lines 130 to 144 of \<^verbatim>\<open>generate_veo_prompt_with_llm\<close>: the list
  \<^verbatim>\<open>prompt_parts\<close>, its entries evaluated in order, and \<^verbatim>\<open>full_prompt\<close>, their
  concatenation.
\<close>

definition veo_header :: "string \<Rightarrow> string \<Rightarrow> string" where
  "veo_header current_topic region_name =
     ''Create a concise, creative, and highly descriptive text-to-video AI prompt (e.g., for Veo or similar models) '' @
     ''for a TikTok-style video. The video should incorporate elements from the following trends relevant to '' @
     squote @ current_topic @ squote @ '' in '' @ squote @ region_name @ squote @ ''.''"

definition veo_footer :: string where
  "veo_footer =
     ''\<newline>\<newline>The video prompt should be imaginative, describe visual scenes, possible character actions, and suggest a mood or style. '' @
     ''Keep it under 150 words. Focus on a single engaging concept.''"

definition prompt_parts :: "environment \<Rightarrow> py_dict \<Rightarrow> string \<Rightarrow> string \<Rightarrow> py_exception + string list" where
  "prompt_parts env trend_data current_topic region_name =
     (let tiktok_hashtags = get_or_empty trend_data ''tiktok_hashtags'';
          tiktok_songs = get_or_empty trend_data ''tiktok_songs'';
          google_trends = get_or_empty trend_data ''google_trends''
      in
      bind_exc (if py_truthy tiktok_hashtags then py_join '', '' tiktok_hashtags
                else Inr none_provided) (\<lambda>hashtags_part.
      bind_exc (if py_truthy tiktok_songs
                then bind_exc (py_iter tiktok_songs) (\<lambda>ss.
                     bind_exc (map_exc (format_song env) ss) (\<lambda>fs. Inr (join_str '', '' fs)))
                else Inr none_provided) (\<lambda>songs_part.
      bind_exc (if py_truthy google_trends then py_join '', '' google_trends
                else Inr none_provided) (\<lambda>google_part.
        Inr [veo_header current_topic region_name,
             ''\<newline>\<newline>**Trending TikTok Hashtags:**'', hashtags_part,
             ''\<newline>\<newline>**Trending TikTok Songs:**'', songs_part,
             ''\<newline>\<newline>**Top Google Search Trends:**'', google_part,
             veo_footer]))))"

definition full_prompt :: "environment \<Rightarrow> py_dict \<Rightarrow> string \<Rightarrow> string \<Rightarrow> py_exception + string" where
  "full_prompt env trend_data current_topic region_name =
     bind_exc (prompt_parts env trend_data current_topic region_name) (\<lambda>ps. Inr (concat ps))"

definition generate_veo_prompt_with_llm ::
    "environment \<Rightarrow> py_dict \<Rightarrow> string \<Rightarrow> string \<Rightarrow> py_exception + json" where
  "generate_veo_prompt_with_llm env trend_data current_topic region_name =
     bind_exc (full_prompt env trend_data current_topic region_name) (\<lambda>p.
       call_gemini_api env p JNull)"

section \<open>The workers\<close>

text \<open>
  A work item is a \<^verbatim>\<open>TrendWorker\<close> or a \<^verbatim>\<open>VeoPromptWorker\<close> with the arguments
  of its constructor. Its \<^verbatim>\<open>run\<close> emits exactly one signal. The signal
  \<^verbatim>\<open>data_generated\<close> is declared \<^verbatim>\<open>pyqtSignal(dict)\<close> and
  \<^verbatim>\<open>prompt_generated\<close> is declared \<^verbatim>\<open>pyqtSignal(str)\<close>: emitting a value of
  another type raises \<^verbatim>\<open>TypeError\<close> inside the \<^verbatim>\<open>try\<close> block, which the
  \<^verbatim>\<open>except\<close> clause turns into \<^verbatim>\<open>error_occurred\<close>.
\<close>

datatype worker =
    TrendWorker string string string
  | VeoPromptWorker py_dict string string

datatype signal =
    data_generated py_dict
  | prompt_generated string
  | error_occurred string

definition trend_worker_run :: "environment \<Rightarrow> string \<Rightarrow> string \<Rightarrow> string \<Rightarrow> signal" where
  "trend_worker_run env topic region_name region_code =
     (case generate_trends_with_llm env topic region_name region_code of
        Inl e \<Rightarrow> error_occurred (''Error during LLM trend data generation: '' @ str_exception env e)
      | Inr generated_data \<Rightarrow>
          if py_truthy generated_data then
            (case generated_data of
               JObj d \<Rightarrow> data_generated d
             | _ \<Rightarrow> error_occurred (''Error during LLM trend data generation: '' @
                                    str_exception env TypeError))
          else error_occurred
            ''LLM could not generate valid trend data. Please try again with a different topic or check API key.'')"

definition veo_prompt_worker_run :: "environment \<Rightarrow> py_dict \<Rightarrow> string \<Rightarrow> string \<Rightarrow> signal" where
  "veo_prompt_worker_run env trend_data current_topic region_name =
     (case generate_veo_prompt_with_llm env trend_data current_topic region_name of
        Inl e \<Rightarrow> error_occurred (''Error during Veo prompt generation: '' @ str_exception env e)
      | Inr veo_prompt \<Rightarrow>
          if py_truthy veo_prompt then
            (case veo_prompt of
               JStr t \<Rightarrow> prompt_generated t
             | _ \<Rightarrow> error_occurred (''Error during Veo prompt generation: '' @
                                    str_exception env TypeError))
          else error_occurred ''LLM could not generate a valid Veo prompt. Please try again.'')"

fun run :: "environment \<Rightarrow> worker \<Rightarrow> signal" where
  "run env (TrendWorker topic region_name region_code) =
     trend_worker_run env topic region_name region_code"
| "run env (VeoPromptWorker trend_data current_topic region_name) =
     veo_prompt_worker_run env trend_data current_topic region_name"

section \<open>The application: \<^verbatim>\<open>TikTokTrendApp\<close>\<close>

definition REGIONS :: "(string \<times> string) list" where
  "REGIONS =
     [(''United States'', ''US''),
      (''Global'', ''GLOBAL''),
      (''United Kingdom'', ''GB''),
      (''Canada'', ''CA''),
      (''Australia'', ''AU''),
      (''Germany'', ''DE''),
      (''France'', ''FR''),
      (''India'', ''IN''),
      (''Brazil'', ''BR''),
      (''Mexico'', ''MX'')]"

text \<open>
  \<^verbatim>\<open>str.strip()\<close>: the characters that \<^verbatim>\<open>str.isspace\<close> accepts, among the code
  points below 256, are removed from both ends.
\<close>

definition isspace :: "char \<Rightarrow> bool" where
  "isspace c =
     (let n = (of_char c :: nat)
      in (9 \<le> n \<and> n \<le> 13) \<or> (28 \<le> n \<and> n \<le> 32) \<or> n = 133 \<or> n = 160)"

definition strip :: "string \<Rightarrow> string" where
  "strip s = rev (dropWhile isspace (rev (dropWhile isspace s)))"

text \<open>
  The state of the window: the attributes the handlers assign and the widgets they
  set. A button is its enabled flag. \<open>threadpool\<close> lists the work items passed to
  \<^verbatim>\<open>self.threadpool.start\<close>, oldest first; \<open>message_boxes\<close> lists the dialogs
  shown (title, text, informative text), oldest first. \<open>veo_prompt_output\<close> is
  the text last given to \<^verbatim>\<open>setText\<close>, empty after \<^verbatim>\<open>clear\<close>. Qt may render such a
  text as rich text, so what \<^verbatim>\<open>toPlainText\<close> returns is a function of it that is
  not spelled out here: the clipboard holds \<open>plain_text_of t\<close>, the plain text of
  the document made from \<open>t\<close>, or is as the window found it. The rendered markup
  of \<^verbatim>\<open>trend_output\<close> is not part of the state; whether computing it raises is
  \<open>render_trends\<close> below.
\<close>

datatype clipboard_content =
    untouched
  | plain_text_of string

record app =
  fetch_button :: bool
  generate_veo_button :: bool
  copy_prompt_button :: bool
  status_label :: string
  topic_input :: string
  region_combo :: string
  veo_prompt_output :: string
  veo_placeholder :: string
  current_trend_data :: py_dict
  current_topic :: string
  current_region_name :: string
  threadpool :: "worker list"
  message_boxes :: "(string \<times> string \<times> string) list"
  clipboard :: clipboard_content

definition fetch_trends :: "app \<Rightarrow> app" where
  "fetch_trends self =
     (let region_name = region_combo self;
          selected_region_code = (case map_of REGIONS region_name of None \<Rightarrow> ''US'' | Some c \<Rightarrow> c);
          stripped = strip (topic_input self);
          topic = (if stripped = [] then ''general'' else stripped)
      in self\<lparr>fetch_button := False,
               generate_veo_button := False,
               copy_prompt_button := False,
               status_label := ''Generating trends... This may take a moment.'',
               veo_prompt_output := [],
               veo_placeholder := ''AI video prompt will appear here...'',
               current_region_name := region_name,
               current_topic := topic,
               topic_input := (if stripped = [] then ''general'' else topic_input self),
               threadpool := threadpool self @ [TrendWorker topic region_name selected_region_code]\<rparr>)"

text \<open>
  \<^verbatim>\<open>display_trends\<close>, lines 351 to 355: the assignments. Lines 357 to 439 follow
  them and compute the markup shown in \<^verbatim>\<open>trend_output\<close>; they assign nothing
  else, and \<open>render_trends\<close> tells whether they raise.
\<close>

definition display_trends :: "app \<Rightarrow> py_dict \<Rightarrow> app" where
  "display_trends self trend_data =
     self\<lparr>fetch_button := True,
          generate_veo_button := True,
          status_label := ''Trends generated successfully. Now you can generate a video prompt.'',
          current_trend_data := trend_data\<rparr>"

text \<open>\<^verbatim>\<open>len(x)\<close> and \<^verbatim>\<open>x[n]\<close> for an index \<open>n\<close> that is not negative.\<close>

fun py_len :: "json \<Rightarrow> py_exception + nat" where
  "py_len (JArr xs) = Inr (length xs)"
| "py_len (JStr s) = Inr (length s)"
| "py_len (JObj kvs) = Inr (length kvs)"
| "py_len _ = Inl TypeError"

fun py_index :: "json \<Rightarrow> nat \<Rightarrow> py_exception + json" where
  "py_index (JArr xs) n = (if n < length xs then Inr (xs ! n) else Inl IndexError)"
| "py_index (JStr s) n = (if n < length s then Inr (JStr [s ! n]) else Inl IndexError)"
| "py_index (JObj kvs) n = Inl KeyError"
| "py_index _ n = Inl TypeError"

text \<open>
  Lines 357 to 439 of \<^verbatim>\<open>display_trends\<close>, reduced to the operations that can
  raise: the three loops over \<^verbatim>\<open>enumerate\<close>, the subscripts \<^verbatim>\<open>s['name']\<close> and
  \<^verbatim>\<open>s['artist']\<close> of each song, and in the recommendations the subscripts
  \<^verbatim>\<open>[0]\<close>, the call of \<^verbatim>\<open>len\<close> and the subscripts \<^verbatim>\<open>[1]\<close> and \<^verbatim>\<open>[2]\<close> of line
  413, which is reached as soon as there are two hashtags. \<open>Inr ()\<close> means that
  \<^verbatim>\<open>setHtml\<close> of line 439 is reached. The handler has no \<^verbatim>\<open>try\<close>: an exception
  leaves the assignments of lines 351 to 355 in place and the old markup on
  display.
\<close>

definition render_trends :: "py_dict \<Rightarrow> py_exception + unit" where
  "render_trends trend_data =
     (let tiktok_hashtags = get_or_empty trend_data ''tiktok_hashtags'';
          tiktok_songs = get_or_empty trend_data ''tiktok_songs'';
          google_trends = get_or_empty trend_data ''google_trends''
      in
      bind_exc (if py_truthy tiktok_hashtags
                then bind_exc (py_iter tiktok_hashtags) (\<lambda>_. Inr ()) else Inr ()) (\<lambda>_.
      bind_exc (if py_truthy tiktok_songs
                then bind_exc (py_iter tiktok_songs) (\<lambda>ss.
                     bind_exc (map_exc (\<lambda>s. bind_exc (py_key s ''name'') (\<lambda>_.
                                                 py_key s ''artist'')) ss) (\<lambda>_. Inr ()))
                else Inr ()) (\<lambda>_.
      bind_exc (if py_truthy google_trends
                then bind_exc (py_iter google_trends) (\<lambda>_. Inr ()) else Inr ()) (\<lambda>_.
        if py_truthy tiktok_hashtags \<or> py_truthy tiktok_songs \<or> py_truthy google_trends then
          bind_exc (if py_truthy tiktok_hashtags
                    then bind_exc (py_first tiktok_hashtags) (\<lambda>_. Inr ()) else Inr ()) (\<lambda>_.
          bind_exc (if py_truthy tiktok_songs
                    then bind_exc (py_first tiktok_songs) (\<lambda>s0.
                         bind_exc (py_key s0 ''name'') (\<lambda>_.
                         bind_exc (py_first tiktok_songs) (\<lambda>s1.
                         bind_exc (py_key s1 ''artist'') (\<lambda>_. Inr ()))))
                    else Inr ()) (\<lambda>_.
          bind_exc (py_len tiktok_hashtags) (\<lambda>n.
          bind_exc (if 1 < n
                    then bind_exc (py_index tiktok_hashtags 1) (\<lambda>_.
                         bind_exc (py_index tiktok_hashtags 2) (\<lambda>_. Inr ()))
                    else Inr ()) (\<lambda>_.
            if py_truthy google_trends
            then bind_exc (py_first google_trends) (\<lambda>_. Inr ()) else Inr ()))))
        else Inr ()))))"

definition display_error_message_box :: "app \<Rightarrow> string \<Rightarrow> app" where
  "display_error_message_box self message =
     self\<lparr>fetch_button := True,
          generate_veo_button := True,
          copy_prompt_button := False,
          status_label := ''Error occurred.'',
          message_boxes := message_boxes self @
            [(''Operation Error'', ''An error occurred during AI processing.'', message)]\<rparr>"

definition no_trend_data_message :: string where
  "no_trend_data_message =
     ''No trend data available to generate a video prompt. Please generate trends first.''"

definition generate_veo_prompt :: "app \<Rightarrow> app" where
  "generate_veo_prompt self =
     (if current_trend_data self = [] then display_error_message_box self no_trend_data_message
      else self\<lparr>generate_veo_button := False,
                copy_prompt_button := False,
                veo_prompt_output := [],
                veo_placeholder := ''Generating video prompt...'',
                status_label := ''Generating AI video prompt... This might take a bit longer.'',
                threadpool := threadpool self @
                  [VeoPromptWorker (current_trend_data self) (current_topic self)
                     (current_region_name self)]\<rparr>)"

definition display_veo_prompt :: "app \<Rightarrow> string \<Rightarrow> app" where
  "display_veo_prompt self prompt_text =
     self\<lparr>generate_veo_button := True,
          copy_prompt_button := True,
          veo_prompt_output := prompt_text,
          status_label := ''AI video prompt generated successfully!'',
          message_boxes := message_boxes self @
            [(''Prompt Generated'',
              ''AI video prompt has been generated and is displayed below. You can copy it to your clipboard.'',
              [])]\<rparr>"

definition copy_veo_prompt :: "app \<Rightarrow> app" where
  "copy_veo_prompt self =
     self\<lparr>clipboard := plain_text_of (veo_prompt_output self),
          message_boxes := message_boxes self @
            [(''Copied!'', ''Video prompt copied to clipboard!'', [])]\<rparr>"

text \<open>
  The window after \<^verbatim>\<open>init_ui\<close> and before the call of \<^verbatim>\<open>fetch_trends\<close> that ends
  \<^verbatim>\<open>__init__\<close>, and the window that \<^verbatim>\<open>__init__\<close> returns.
\<close>

definition init_ui :: app where
  "init_ui =
     \<lparr>fetch_button = True,
      generate_veo_button = False,
      copy_prompt_button = False,
      status_label = ''Enter a topic and click 'Generate Trends'.'',
      topic_input = ''general'',
      region_combo = ''United States'',
      veo_prompt_output = [],
      veo_placeholder = ''AI video prompt will appear here...'',
      current_trend_data = [],
      current_topic = ''general'',
      current_region_name = ''United States'',
      threadpool = [],
      message_boxes = [],
      clipboard = untouched\<rparr>"

definition init :: app where
  "init = fetch_trends init_ui"

text \<open>
  What the event loop delivers to the window: a click on one of the three buttons
  (a disabled button emits nothing) or a signal of a worker, routed by the
  connections made in \<^verbatim>\<open>init_ui\<close>, \<^verbatim>\<open>fetch_trends\<close> and \<^verbatim>\<open>generate_veo_prompt\<close>.
\<close>

datatype event =
    fetch_clicked
  | generate_veo_clicked
  | copy_prompt_clicked
  | emitted signal

fun handle :: "app \<Rightarrow> event \<Rightarrow> app" where
  "handle self fetch_clicked = (if fetch_button self then fetch_trends self else self)"
| "handle self generate_veo_clicked =
     (if generate_veo_button self then generate_veo_prompt self else self)"
| "handle self copy_prompt_clicked =
     (if copy_prompt_button self then copy_veo_prompt self else self)"
| "handle self (emitted (data_generated trend_data)) = display_trends self trend_data"
| "handle self (emitted (prompt_generated prompt_text)) = display_veo_prompt self prompt_text"
| "handle self (emitted (error_occurred message)) = display_error_message_box self message"

section \<open>Vocabulary of the properties\<close>

text \<open>A key of a dictionary is absent, or its value is falsy (\<^verbatim>\<open>None\<close>, an empty
  list, an empty dictionary, ...).\<close>

definition absent_or_falsy :: "py_dict \<Rightarrow> string \<Rightarrow> bool" where
  "absent_or_falsy kvs k = (case map_of kvs k of None \<Rightarrow> True | Some v \<Rightarrow> \<not> py_truthy v)"

text \<open>The reply of the endpoint in its expected shape,
  \<^verbatim>\<open>{"candidates": [{"content": {"parts": [{"text": t}]}}]}\<close>.\<close>

definition gemini_reply :: "json \<Rightarrow> json" where
  "gemini_reply t =
     JObj [(''candidates'', JArr [JObj [(''content'', JObj [(''parts'', JArr [JObj [(''text'', t)]])])]])]"

text \<open>
  Concrete surroundings for the examples: a server that answers every request with
  status \<open>st\<close> and body \<open>b\<close>, and a parser given by a finite table; a server that
  cannot be reached.
\<close>

definition env_of_bodies :: "nat \<Rightarrow> string \<Rightarrow> (string \<times> json) list \<Rightarrow> environment" where
  "env_of_bodies st b table =
     \<lparr>post = (\<lambda>payload. Inr \<lparr>status_code = st, body = b\<rparr>),
      loads = map_of table,
      str_value = (\<lambda>v. ''<value>''),
      str_exception = (\<lambda>e. ''<exception>'')\<rparr>"

definition env_offline :: environment where
  "env_offline =
     \<lparr>post = (\<lambda>payload. Inl RequestException),
      loads = map_of [],
      str_value = (\<lambda>v. ''<value>''),
      str_exception = (\<lambda>e. ''<exception>'')\<rparr>"

text \<open>A song of a trend set as the dictionary the schema asks for, and as the
  text line 138 makes of it.\<close>

definition song_json :: "string \<times> string \<Rightarrow> json" where
  "song_json s = JObj [(''name'', JStr (fst s)), (''artist'', JStr (snd s))]"

definition song_text :: "string \<times> string \<Rightarrow> string" where
  "song_text s = squote @ fst s @ squote @ '' by '' @ snd s"

text \<open>The number of positions of a text at which a pattern occurs.\<close>

fun occurrences :: "'a list \<Rightarrow> 'a list \<Rightarrow> nat" where
  "occurrences pat [] = 0"
| "occurrences pat (c # cs) = (if prefix pat (c # cs) then 1 else 0) + occurrences pat cs"

text \<open>The signals of \<^verbatim>\<open>data_generated\<close> among a sequence of events, in order.\<close>

fun generated :: "event list \<Rightarrow> py_dict list" where
  "generated [] = []"
| "generated (emitted (data_generated d) # es) = d # generated es"
| "generated (_ # es) = generated es"

text \<open>The three category headings of \<^verbatim>\<open>prompt_parts\<close>.\<close>

definition hashtags_header :: string where
  "hashtags_header = ''\<newline>\<newline>**Trending TikTok Hashtags:**''"

definition songs_header :: string where
  "songs_header = ''\<newline>\<newline>**Trending TikTok Songs:**''"

definition google_header :: string where
  "google_header = ''\<newline>\<newline>**Top Google Search Trends:**''"

text \<open>
  Example data: the trend set of the specification's first scenario, the trend set
  with three empty lists, and a server whose reply carries the first as its text.
\<close>

definition example_trend_data :: py_dict where
  "example_trend_data =
     [(''tiktok_hashtags'', JArr [JStr ''#gamingtok'']),
      (''tiktok_songs'', JArr [JObj [(''name'', JStr ''Song''), (''artist'', JStr ''Artist'')]]),
      (''google_trends'', JArr [JStr ''best games 2024''])]"

definition empty_trend_data :: py_dict where
  "empty_trend_data =
     [(''tiktok_hashtags'', JArr []), (''tiktok_songs'', JArr []), (''google_trends'', JArr [])]"

definition env_trends_ok :: environment where
  "env_trends_ok =
     env_of_bodies 200 ''reply''
       [(''reply'', gemini_reply (JStr ''trends'')), (''trends'', JObj example_trend_data)]"

definition env_empty_reply :: environment where
  "env_empty_reply = env_of_bodies 200 ''{}'' [(''{}'', JObj [])]"

definition env_bad_inner_json :: environment where
  "env_bad_inner_json =
     env_of_bodies 200 ''reply'' [(''reply'', gemini_reply (JStr ''not json''))]"

section \<open>Basic facts\<close>

lemma bind_exc_simps [simp]:
  "bind_exc (Inl e) f = Inl e"
  "bind_exc (Inr v) f = f v"
  by (simp_all add: bind_exc_def)

lemma has_parts_no_candidates:
  "absent_or_falsy kvs ''candidates'' \<Longrightarrow> has_parts (JObj kvs) = Inr False"
  by (auto simp: has_parts_def absent_or_falsy_def split: option.splits)



section \<open>The gateway returns \<^verbatim>\<open>None\<close> on a reply without parts\<close>



lemma py_first_list_truthy: "py_truthy (JArr cs) \<Longrightarrow> \<exists>c0 rest. cs = c0 # rest \<and> py_first (JArr cs) = Inr c0"
  by (cases cs) simp_all







section \<open>How the gateway fails\<close>

lemma call_post_fails:
  "post env (build_payload p schema) = Inl e \<Longrightarrow> call_gemini_api env p schema = Inl e"
  by (simp add: call_gemini_api_def)

lemma call_bad_status:
  "post env (build_payload p schema) = Inr r \<Longrightarrow> 400 \<le> status_code r \<Longrightarrow> status_code r < 600
   \<Longrightarrow> call_gemini_api env p schema = Inl RequestException"
  by (simp add: call_gemini_api_def raise_for_status_def)

lemma call_parsed:
  "post env (build_payload p schema) = Inr r \<Longrightarrow> raise_for_status r = Inr ()
   \<Longrightarrow> loads env (body r) = Some result
   \<Longrightarrow> call_gemini_api env p schema = extract_reply env schema result"
  by (simp add: call_gemini_api_def response_json_def)

lemma extract_reply_bad_inner_json:
  "has_parts result = Inr True \<Longrightarrow> response_text result = Inr (JStr t) \<Longrightarrow> py_truthy schema
   \<Longrightarrow> loads env t = None \<Longrightarrow> extract_reply env schema result = Inl JSONDecodeError"
  by (simp add: extract_reply_def)

lemma has_parts_gemini_reply: "has_parts (gemini_reply (JStr t)) = Inr True"
  by (simp add: has_parts_def gemini_reply_def)

lemma response_text_gemini_reply: "response_text (gemini_reply t) = Inr t"
  by (simp add: response_text_def gemini_reply_def)

lemma trend_worker_run_none:
  "generate_trends_with_llm env topic rn rc = Inr JNull \<Longrightarrow>
   trend_worker_run env topic rn rc = error_occurred
     ''LLM could not generate valid trend data. Please try again with a different topic or check API key.''"
  by (simp add: trend_worker_run_def)

lemma trend_worker_run_exception:
  "generate_trends_with_llm env topic rn rc = Inl e \<Longrightarrow>
   trend_worker_run env topic rn rc =
     error_occurred (''Error during LLM trend data generation: '' @ str_exception env e)"
  by (simp add: trend_worker_run_def)

text \<open>
  Claim C2, as amended. A transport failure and a status from 400 to 599 raise
  \<^verbatim>\<open>RequestException\<close>; a schema-requested call whose inner text does not parse
  raises \<^verbatim>\<open>JSONDecodeError\<close>. A reply without \<^verbatim>\<open>candidates\<close> raises nothing:
  \<^verbatim>\<open>call_gemini_api\<close> returns \<^verbatim>\<open>None\<close>, and it is the worker that turns a
  returned \<^verbatim>\<open>None\<close> into the signal \<^verbatim>\<open>error_occurred\<close>.
\<close>

theorem gateway_failures:
  "(post env (build_payload p schema) = Inl RequestException \<longrightarrow>
      call_gemini_api env p schema = Inl RequestException) \<and>
   (\<forall>r. post env (build_payload p schema) = Inr r \<and> 400 \<le> status_code r \<and> status_code r < 600 \<longrightarrow>
      call_gemini_api env p schema = Inl RequestException) \<and>
   (\<forall>r result t. post env (build_payload p schema) = Inr r \<and>
        raise_for_status r = Inr () \<and>
        loads env (body r) = Some result \<and>
        has_parts result = Inr True \<and> response_text result = Inr (JStr t) \<and>
        py_truthy schema \<and> loads env t = None \<longrightarrow>
      call_gemini_api env p schema = Inl JSONDecodeError) \<and>
   (\<forall>r kvs. post env (build_payload p schema) = Inr r \<and>
        raise_for_status r = Inr () \<and>
        loads env (body r) = Some (JObj kvs) \<and> absent_or_falsy kvs ''candidates'' \<longrightarrow>
      call_gemini_api env p schema = Inr JNull) \<and>
   (\<forall>topic rn rc. generate_trends_with_llm env topic rn rc = Inr JNull \<longrightarrow>
      trend_worker_run env topic rn rc = error_occurred
        ''LLM could not generate valid trend data. Please try again with a different topic or check API key.'') \<and>
   (\<forall>td topic rn. generate_veo_prompt_with_llm env td topic rn = Inr JNull \<longrightarrow>
      veo_prompt_worker_run env td topic rn = error_occurred
        ''LLM could not generate a valid Veo prompt. Please try again.'')"
proof (intro conjI allI impI)
  show "call_gemini_api env p schema = Inl RequestException"
    if "post env (build_payload p schema) = Inl RequestException"
    using that by (rule call_post_fails)
next
  fix r
  assume "post env (build_payload p schema) = Inr r \<and> 400 \<le> status_code r \<and> status_code r < 600"
  then show "call_gemini_api env p schema = Inl RequestException"
    using call_bad_status by blast
next
  fix r result t
  assume h: "post env (build_payload p schema) = Inr r \<and>
        raise_for_status r = Inr () \<and>
        loads env (body r) = Some result \<and>
        has_parts result = Inr True \<and> response_text result = Inr (JStr t) \<and>
        py_truthy schema \<and> loads env t = None"
  then have "call_gemini_api env p schema = extract_reply env schema result"
    using call_parsed by blast
  with h show "call_gemini_api env p schema = Inl JSONDecodeError"
    using extract_reply_bad_inner_json by simp
next
  fix r kvs
  assume h: "post env (build_payload p schema) = Inr r \<and>
        raise_for_status r = Inr () \<and>
        loads env (body r) = Some (JObj kvs) \<and> absent_or_falsy kvs ''candidates''"
  then have "call_gemini_api env p schema = extract_reply env schema (JObj kvs)"
    using call_parsed by blast
  moreover from h have "has_parts (JObj kvs) = Inr False"
    using has_parts_no_candidates by blast
  ultimately show "call_gemini_api env p schema = Inr JNull"
    by (simp add: extract_reply_def)
next
  fix topic rn rc
  assume "generate_trends_with_llm env topic rn rc = Inr JNull"
  then show "trend_worker_run env topic rn rc = error_occurred
        ''LLM could not generate valid trend data. Please try again with a different topic or check API key.''"
    by (rule trend_worker_run_none)
next
  fix td topic rn
  assume "generate_veo_prompt_with_llm env td topic rn = Inr JNull"
  then show "veo_prompt_worker_run env td topic rn = error_occurred
        ''LLM could not generate a valid Veo prompt. Please try again.''"
    by (simp add: veo_prompt_worker_run_def)
qed

theorem gateway_failures_witness:
  "call_gemini_api env_offline ''prompt'' JNull = Inl RequestException \<and>
   call_gemini_api (env_of_bodies 503 [] []) ''prompt'' JNull = Inl RequestException \<and>
   call_gemini_api env_bad_inner_json ''prompt'' trends_response_schema = Inl JSONDecodeError \<and>
   call_gemini_api env_empty_reply ''prompt'' trends_response_schema = Inr JNull \<and>
   trend_worker_run env_empty_reply ''general'' ''United States'' ''US'' = error_occurred
     ''LLM could not generate valid trend data. Please try again with a different topic or check API key.''"
proof -
  have schema: "py_truthy trends_response_schema"
    by (simp add: trends_response_schema_def)
  have "post env_offline (build_payload ''prompt'' JNull) = Inl RequestException"
    by (simp add: env_offline_def)
  with gateway_failures [of env_offline "''prompt''" JNull]
  have a: "call_gemini_api env_offline ''prompt'' JNull = Inl RequestException"
    by blast
  have "post (env_of_bodies 503 [] []) (build_payload ''prompt'' JNull) =
          Inr \<lparr>status_code = 503, body = []\<rparr> \<and>
        400 \<le> status_code \<lparr>status_code = 503, body = []\<rparr> \<and>
        status_code \<lparr>status_code = 503, body = []\<rparr> < 600"
    by (simp add: env_of_bodies_def)
  with gateway_failures [of "env_of_bodies 503 [] []" "''prompt''" JNull]
  have b: "call_gemini_api (env_of_bodies 503 [] []) ''prompt'' JNull = Inl RequestException"
    by blast
  have "post env_bad_inner_json (build_payload ''prompt'' trends_response_schema) =
          Inr \<lparr>status_code = 200, body = ''reply''\<rparr> \<and>
        raise_for_status \<lparr>status_code = 200, body = ''reply''\<rparr> = Inr () \<and>
        loads env_bad_inner_json (body \<lparr>status_code = 200, body = ''reply''\<rparr>) =
          Some (gemini_reply (JStr ''not json'')) \<and>
        has_parts (gemini_reply (JStr ''not json'')) = Inr True \<and>
        response_text (gemini_reply (JStr ''not json'')) = Inr (JStr ''not json'') \<and>
        py_truthy trends_response_schema \<and>
        loads env_bad_inner_json ''not json'' = None"
    by (simp add: env_bad_inner_json_def env_of_bodies_def raise_for_status_def schema
        has_parts_gemini_reply response_text_gemini_reply)
  with gateway_failures [of env_bad_inner_json "''prompt''" trends_response_schema]
  have c: "call_gemini_api env_bad_inner_json ''prompt'' trends_response_schema = Inl JSONDecodeError"
    by blast
  have reply: "post env_empty_reply (build_payload q trends_response_schema) =
          Inr \<lparr>status_code = 200, body = ''{}''\<rparr> \<and>
        raise_for_status \<lparr>status_code = 200, body = ''{}''\<rparr> = Inr () \<and>
        loads env_empty_reply (body \<lparr>status_code = 200, body = ''{}''\<rparr>) = Some (JObj []) \<and>
        absent_or_falsy [] ''candidates''" for q
    by (simp add: env_empty_reply_def env_of_bodies_def raise_for_status_def absent_or_falsy_def)
  from gateway_failures [of env_empty_reply "''prompt''" trends_response_schema] reply
  have d: "call_gemini_api env_empty_reply ''prompt'' trends_response_schema = Inr JNull"
    by blast
  from gateway_failures
    [of env_empty_reply "trends_prompt ''general'' ''United States'' ''US''" trends_response_schema]
    reply
  have "generate_trends_with_llm env_empty_reply ''general'' ''United States'' ''US'' = Inr JNull"
    unfolding generate_trends_with_llm_def by blast
  with gateway_failures [of env_empty_reply "''prompt''" trends_response_schema]
  have e: "trend_worker_run env_empty_reply ''general'' ''United States'' ''US'' = error_occurred
     ''LLM could not generate valid trend data. Please try again with a different topic or check API key.''"
    by blast
  from a b c d e show ?thesis by blast
qed

text \<open>
  Against claim C2 as stated: on a reply \<^verbatim>\<open>{}\<close>, which lacks \<^verbatim>\<open>candidates\<close>, the
  call raises no error; it returns \<^verbatim>\<open>None\<close>.
\<close>

theorem call_gemini_api_missing_candidates_returns:
  "call_gemini_api env_empty_reply ''prompt'' trends_response_schema = Inr JNull"
  by (simp add: call_gemini_api_def env_empty_reply_def env_of_bodies_def raise_for_status_def
      response_json_def extract_reply_def has_parts_def)

section \<open>The trend prompt and its schema\<close>

lemma sublist_here: "sublist x (x @ b)"
  by (rule sublist_append_rightI)

lemma sublist_skip: "sublist x b \<Longrightarrow> sublist x (a @ b)"
  by (metis sublist_append)

text \<open>
  Claim C3, as amended. For all strings \<open>topic\<close>, \<open>region_name\<close> and
  \<open>region_code\<close>, the instruction text of \<^verbatim>\<open>generate_trends_with_llm\<close> contains
  each of the three verbatim, and the schema sent with it declares and requires
  exactly the three keys \<^verbatim>\<open>tiktok_hashtags\<close>, \<^verbatim>\<open>tiktok_songs\<close> and
  \<^verbatim>\<open>google_trends\<close>.
\<close>

theorem trends_prompt_contents:
  "sublist topic (trends_prompt topic region_name region_code) \<and>
   sublist region_name (trends_prompt topic region_name region_code) \<and>
   sublist region_code (trends_prompt topic region_name region_code) \<and>
   required_keys trends_response_schema = [''tiktok_hashtags'', ''tiktok_songs'', ''google_trends''] \<and>
   property_keys trends_response_schema = [''tiktok_hashtags'', ''tiktok_songs'', ''google_trends'']"
proof (intro conjI)
  show "sublist topic (trends_prompt topic region_name region_code)"
    unfolding trends_prompt_def by (rule sublist_here | rule sublist_skip)+
  show "sublist region_name (trends_prompt topic region_name region_code)"
    unfolding trends_prompt_def by (rule sublist_here | rule sublist_skip)+
  show "sublist region_code (trends_prompt topic region_name region_code)"
    unfolding trends_prompt_def by (rule sublist_here | rule sublist_skip)+
  show "required_keys trends_response_schema = [''tiktok_hashtags'', ''tiktok_songs'', ''google_trends'']"
    by (simp add: trends_response_schema_def)
  show "property_keys trends_response_schema = [''tiktok_hashtags'', ''tiktok_songs'', ''google_trends'']"
    by (simp add: trends_response_schema_def)
qed

text \<open>
  Against claim C3 as stated: none of \<^verbatim>\<open>hashtags\<close>, \<^verbatim>\<open>songs\<close> and
  \<^verbatim>\<open>searchTerms\<close> is a required key of the schema.
\<close>

theorem schema_keys_differ:
  "''hashtags'' \<notin> set (required_keys trends_response_schema) \<and>
   ''songs'' \<notin> set (required_keys trends_response_schema) \<and>
   ''searchTerms'' \<notin> set (required_keys trends_response_schema)"
  by (simp add: trends_response_schema_def)

section \<open>The video prompt of a trend set\<close>

lemma the_strings_map_JStr: "the_strings (map JStr hs) = Inr hs"
  by (induction hs) simp_all

lemma py_join_strings: "py_join sep (JArr (map JStr hs)) = Inr (join_str sep hs)"
  by (simp add: py_join_def the_strings_map_JStr)

lemma format_song_song_json: "format_song env (song_json s) = Inr (song_text s)"
  by (simp add: format_song_def song_json_def song_text_def)

lemma map_exc_format_song:
  "map_exc (format_song env) (map song_json ss) = Inr (map song_text ss)"
  by (induction ss) (simp_all add: format_song_song_json)

lemma sublist_join_str: "h \<in> set hs \<Longrightarrow> sublist h (join_str sep hs)"
proof (induction sep hs rule: join_str.induct)
  case (1 sep)
  then show ?case by simp
next
  case (2 sep x)
  then show ?case by simp
next
  case (3 sep x y ys)
  show ?case
  proof (cases "h = x")
    case True
    then show ?thesis by (simp add: sublist_here)
  next
    case False
    with 3 have "sublist h (join_str sep (y # ys))" by simp
    then show ?thesis by (simp add: sublist_skip)
  qed
qed

lemma sublist_trans: "sublist a b \<Longrightarrow> sublist b c \<Longrightarrow> sublist a c"
  by (rule sublist_order.order.trans)

lemma full_prompt_typed:
  assumes "map_of td ''tiktok_hashtags'' = Some (JArr (map JStr hs))"
      and "map_of td ''tiktok_songs'' = Some (JArr (map song_json ss))"
      and "map_of td ''google_trends'' = Some (JArr (map JStr gs))"
  shows "full_prompt env td topic rn =
           Inr (veo_header topic rn @
                hashtags_header @ (if hs = [] then none_provided else join_str '', '' hs) @
                songs_header @ (if ss = [] then none_provided else join_str '', '' (map song_text ss)) @
                google_header @ (if gs = [] then none_provided else join_str '', '' gs) @
                veo_footer)"
  using assms
  by (simp add: full_prompt_def prompt_parts_def get_or_empty_def py_join_strings
      map_exc_format_song hashtags_header_def songs_header_def google_header_def)

text \<open>
  Claim C4, as amended. Let the trend data hold a list of strings under
  \<^verbatim>\<open>tiktok_hashtags\<close> and under \<^verbatim>\<open>google_trends\<close>, and a list of songs with string
  \<^verbatim>\<open>name\<close> and \<^verbatim>\<open>artist\<close> under \<^verbatim>\<open>tiktok_songs\<close>. Then the instruction text is
  built without an exception, it contains every hashtag verbatim and every song
  as \<^verbatim>\<open>'name' by artist\<close>, in single quotes, and the items of a non-empty category
  stand between its heading and the next one, joined by a comma and a space.
\<close>

theorem veo_prompt_contents:
  assumes "map_of td ''tiktok_hashtags'' = Some (JArr (map JStr hs))"
      and "map_of td ''tiktok_songs'' = Some (JArr (map song_json ss))"
      and "map_of td ''google_trends'' = Some (JArr (map JStr gs))"
  shows "\<exists>p. full_prompt env td topic rn = Inr p \<and>
           (\<forall>h\<in>set hs. sublist h p) \<and>
           (\<forall>s\<in>set ss. sublist (song_text s) p) \<and>
           (hs \<noteq> [] \<longrightarrow> sublist (hashtags_header @ join_str '', '' hs @ songs_header) p) \<and>
           (ss \<noteq> [] \<longrightarrow>
              sublist (songs_header @ join_str '', '' (map song_text ss) @ google_header) p)"
proof -
  define H where "H = (if hs = [] then none_provided else join_str '', '' hs)"
  define S where "S = (if ss = [] then none_provided else join_str '', '' (map song_text ss))"
  define G where "G = (if gs = [] then none_provided else join_str '', '' gs)"
  define p where "p = veo_header topic rn @ hashtags_header @ H @ songs_header @ S @
                      google_header @ G @ veo_footer"
  have eq: "full_prompt env td topic rn = Inr p"
    using full_prompt_typed [OF assms] by (simp add: p_def H_def S_def G_def)
  have H_in: "sublist H p"
    unfolding p_def by (rule sublist_here | rule sublist_skip)+
  have S_in: "sublist S p"
    unfolding p_def by (rule sublist_here | rule sublist_skip)+
  have hs: "sublist h p" if "h \<in> set hs" for h
  proof -
    from that have "hs \<noteq> []" by auto
    then have "H = join_str '', '' hs" by (simp add: H_def)
    with that have "sublist h H" by (simp add: sublist_join_str)
    then show ?thesis using H_in by (rule sublist_trans)
  qed
  have ss: "sublist (song_text s) p" if "s \<in> set ss" for s
  proof -
    from that have "ss \<noteq> []" by auto
    then have "S = join_str '', '' (map song_text ss)" by (simp add: S_def)
    moreover from that have "song_text s \<in> set (map song_text ss)" by simp
    ultimately have "sublist (song_text s) S" by (simp add: sublist_join_str)
    then show ?thesis using S_in by (rule sublist_trans)
  qed
  have hrun: "sublist (hashtags_header @ join_str '', '' hs @ songs_header) p" if "hs \<noteq> []"
  proof -
    from that have "p = veo_header topic rn @ (hashtags_header @ join_str '', '' hs @ songs_header) @
        (S @ google_header @ G @ veo_footer)"
      by (simp add: p_def H_def)
    then show ?thesis by (metis sublist_appendI)
  qed
  have srun: "sublist (songs_header @ join_str '', '' (map song_text ss) @ google_header) p"
    if "ss \<noteq> []"
  proof -
    from that have "p = (veo_header topic rn @ hashtags_header @ H) @
        (songs_header @ join_str '', '' (map song_text ss) @ google_header) @ (G @ veo_footer)"
      by (simp add: p_def S_def)
    then show ?thesis by (metis sublist_appendI)
  qed
  from eq hs ss hrun srun show ?thesis by blast
qed

theorem veo_prompt_contents_witness:
  "map_sum id (sublist ''#gamingtok'')
     (full_prompt env_offline example_trend_data ''gaming'' ''United States'') = Inr True \<and>
   map_sum id (sublist (squote @ ''Song'' @ squote @ '' by Artist''))
     (full_prompt env_offline example_trend_data ''gaming'' ''United States'') = Inr True"
  using veo_prompt_contents [of example_trend_data "[''#gamingtok'']" "[(''Song'', ''Artist'')]"
      "[''best games 2024'']" env_offline "''gaming''" "''United States''"]
  by (auto simp: example_trend_data_def song_json_def song_text_def)

text \<open>
  Against claim C4 as stated: for the song \<^verbatim>\<open>Song\<close> by \<^verbatim>\<open>Artist\<close> the text
  \<^verbatim>\<open>"Song" by Artist\<close>, in double quotes, does not occur in the instruction.
\<close>

theorem veo_prompt_double_quotes_absent:
  "map_sum id (sublist (dquote @ ''Song'' @ dquote @ '' by Artist''))
     (full_prompt env_offline example_trend_data ''gaming'' ''United States'') = Inr False"
  by code_simp

section \<open>The video prompt of the empty trend set\<close>

lemma prefix_across_separator:
  assumes "q \<notin> set pat"
  shows "prefix pat (u @ q # b) \<longleftrightarrow> prefix pat u"
proof
  assume "prefix pat (u @ q # b)"
  then have "prefix pat u \<or> (\<exists>w. pat = u @ w \<and> prefix w (q # b))"
    by (simp add: prefix_append)
  then show "prefix pat u"
  proof (elim disjE exE conjE)
    fix w
    assume w: "pat = u @ w" "prefix w (q # b)"
    show ?thesis
    proof (cases w)
      case Nil
      with w show ?thesis by simp
    next
      case (Cons c w')
      with w have "c = q" by simp
      with Cons w assms show ?thesis by simp
    qed
  qed
next
  assume "prefix pat u"
  then show "prefix pat (u @ q # b)" by simp
qed

lemma occurrences_across_separator:
  assumes "q \<notin> set pat" and "pat \<noteq> []"
  shows "occurrences pat (a @ q # b) = occurrences pat a + occurrences pat b"
proof (induction a)
  case Nil
  from assms have "\<not> prefix pat (q # b)"
    by (cases pat) (auto simp: prefix_Cons)
  then show ?case by simp
next
  case (Cons x a)
  have "prefix pat (x # a @ q # b) \<longleftrightarrow> prefix pat (x # a)"
    using prefix_across_separator [OF assms(1), of "x # a" b] by simp
  with Cons show ?case by simp
qed

lemma falsy_get_or_empty:
  "absent_or_falsy td k \<Longrightarrow> \<not> py_truthy (get_or_empty td k)"
  by (simp add: absent_or_falsy_def get_or_empty_def split: option.splits)

lemma prompt_parts_empty:
  assumes "absent_or_falsy td ''tiktok_hashtags''"
      and "absent_or_falsy td ''tiktok_songs''"
      and "absent_or_falsy td ''google_trends''"
  shows "prompt_parts env td topic rn =
           Inr [veo_header topic rn,
                ''\<newline>\<newline>**Trending TikTok Hashtags:**'', none_provided,
                ''\<newline>\<newline>**Trending TikTok Songs:**'', none_provided,
                ''\<newline>\<newline>**Top Google Search Trends:**'', none_provided,
                veo_footer]"
  using assms [THEN falsy_get_or_empty] by (simp add: prompt_parts_def)

lemma occ_lit1: "occurrences ''None provided''
  (''Create a concise, creative, and highly descriptive text-to-video AI prompt (e.g., for Veo or similar models) '' @
     ''for a TikTok-style video. The video should incorporate elements from the following trends relevant to '') = 0"
  by code_simp

lemma occ_lit2: "occurrences ''None provided'' '' in '' = 0"
  by code_simp

lemma occ_lit3: "occurrences ''None provided''
   (''.'' @ ''\<newline>\<newline>**Trending TikTok Hashtags:**'' @ none_provided @
     ''\<newline>\<newline>**Trending TikTok Songs:**'' @ none_provided @
     ''\<newline>\<newline>**Top Google Search Trends:**'' @ none_provided @ veo_footer) = 3"
  by code_simp

lemma occurrences_empty_prompt:
  "occurrences ''None provided''
     (concat [veo_header topic rn,
                ''\<newline>\<newline>**Trending TikTok Hashtags:**'', none_provided,
                ''\<newline>\<newline>**Trending TikTok Songs:**'', none_provided,
                ''\<newline>\<newline>**Top Google Search Trends:**'', none_provided,
                veo_footer])
   = 3 + occurrences ''None provided'' topic + occurrences ''None provided'' rn"
proof -
  let ?pat = "''None provided''"
  let ?l1 = "''Create a concise, creative, and highly descriptive text-to-video AI prompt (e.g., for Veo or similar models) '' @
     ''for a TikTok-style video. The video should incorporate elements from the following trends relevant to ''"
  let ?l3 = "''.'' @ ''\<newline>\<newline>**Trending TikTok Hashtags:**'' @ none_provided @
     ''\<newline>\<newline>**Trending TikTok Songs:**'' @ none_provided @
     ''\<newline>\<newline>**Top Google Search Trends:**'' @ none_provided @ veo_footer"
  have sep: "CHR 0x27 \<notin> set ?pat" "?pat \<noteq> []" by simp_all
  have shape: "concat [veo_header topic rn,
                ''\<newline>\<newline>**Trending TikTok Hashtags:**'', none_provided,
                ''\<newline>\<newline>**Trending TikTok Songs:**'', none_provided,
                ''\<newline>\<newline>**Top Google Search Trends:**'', none_provided,
                veo_footer]
      = ?l1 @ CHR 0x27 # (topic @ CHR 0x27 # ('' in '' @ CHR 0x27 # (rn @ CHR 0x27 # ?l3)))"
    by (simp add: veo_header_def squote_def)
  have "occurrences ?pat (?l1 @ CHR 0x27 # (topic @ CHR 0x27 # ('' in '' @ CHR 0x27 # (rn @ CHR 0x27 # ?l3))))
      = occurrences ?pat ?l1 + (occurrences ?pat topic + (occurrences ?pat '' in '' +
          (occurrences ?pat rn + occurrences ?pat ?l3)))"
    by (simp only: occurrences_across_separator [OF sep])
  then show ?thesis
    unfolding shape by (simp only: occ_lit1 occ_lit2 occ_lit3)
qed

text \<open>
  Claim C5, as amended. When each of the three lists is absent or empty, the
  instruction text is built without an exception and each category heading is
  followed by the placeholder \<^verbatim>\<open>None provided.\<close>; the literal \<^verbatim>\<open>None provided\<close>
  occurs in the text exactly three times more often than it occurs in the
  interpolated topic and region name together, hence exactly three times when
  neither of the two contains it.
\<close>

theorem empty_trend_set_placeholders:
  assumes "absent_or_falsy td ''tiktok_hashtags''"
      and "absent_or_falsy td ''tiktok_songs''"
      and "absent_or_falsy td ''google_trends''"
  shows "\<exists>p. full_prompt env td topic rn = Inr p \<and>
           p = veo_header topic rn @ hashtags_header @ none_provided @
               songs_header @ none_provided @ google_header @ none_provided @ veo_footer \<and>
           occurrences ''None provided'' p =
             3 + occurrences ''None provided'' topic + occurrences ''None provided'' rn"
proof -
  let ?parts = "[veo_header topic rn,
                ''\<newline>\<newline>**Trending TikTok Hashtags:**'', none_provided,
                ''\<newline>\<newline>**Trending TikTok Songs:**'', none_provided,
                ''\<newline>\<newline>**Top Google Search Trends:**'', none_provided,
                veo_footer]"
  have "full_prompt env td topic rn = Inr (concat ?parts)"
    using prompt_parts_empty [OF assms, of env topic rn]
    by (simp only: full_prompt_def bind_exc_simps)
  moreover have "concat ?parts =
      veo_header topic rn @ hashtags_header @ none_provided @
      songs_header @ none_provided @ google_header @ none_provided @ veo_footer"
    by (simp add: hashtags_header_def songs_header_def google_header_def)
  moreover have "occurrences ''None provided'' (concat ?parts) =
      3 + occurrences ''None provided'' topic + occurrences ''None provided'' rn"
    by (rule occurrences_empty_prompt)
  ultimately show ?thesis by (metis (no_types))
qed

theorem empty_trend_set_placeholders_witness:
  "map_sum id (occurrences ''None provided'')
     (full_prompt env_offline empty_trend_data ''gaming'' ''United States'') = Inr 3"
  using empty_trend_set_placeholders [of empty_trend_data env_offline "''gaming''" "''United States''"]
  by (auto simp: absent_or_falsy_def empty_trend_data_def)

text \<open>
  Against claim C5 as stated: with the topic \<^verbatim>\<open>None provided\<close> the literal occurs
  four times in the instruction for the empty trend set.
\<close>

theorem none_provided_four_times:
  "map_sum id (occurrences ''None provided'')
     (full_prompt env_offline empty_trend_data ''None provided'' ''United States'') = Inr 4"
  by code_simp

section \<open>The effective topic\<close>

lemma all_dropWhile_iff:
  "(\<forall>x\<in>set (dropWhile P s). P x) \<longleftrightarrow> (\<forall>c\<in>set s. P c)"
proof
  assume a: "\<forall>x\<in>set (dropWhile P s). P x"
  have "dropWhile P s = []"
  proof (rule ccontr)
    assume ne: "dropWhile P s \<noteq> []"
    then have "\<not> P (hd (dropWhile P s))" by (rule hd_dropWhile)
    moreover from ne have "hd (dropWhile P s) \<in> set (dropWhile P s)" by (rule hd_in_set)
    ultimately show False using a by blast
  qed
  then show "\<forall>c\<in>set s. P c" by (simp only: dropWhile_eq_Nil_conv)
next
  assume "\<forall>c\<in>set s. P c"
  then show "\<forall>x\<in>set (dropWhile P s). P x" by (auto dest: set_dropWhileD)
qed

lemma strip_Nil_iff: "strip s = [] \<longleftrightarrow> (\<forall>c\<in>set s. isspace c)"
  by (simp add: strip_def all_dropWhile_iff)

lemma strip_decomposition:
  "\<exists>pre post. s = pre @ strip s @ post \<and> (\<forall>c\<in>set pre. isspace c) \<and> (\<forall>c\<in>set post. isspace c)"
proof -
  let ?d = "dropWhile isspace s"
  let ?pre = "takeWhile isspace s"
  let ?post = "rev (takeWhile isspace (rev ?d))"
  have "rev (takeWhile isspace (rev ?d) @ dropWhile isspace (rev ?d)) = rev (rev ?d)"
    by (simp only: takeWhile_dropWhile_id)
  then have "rev (dropWhile isspace (rev ?d)) @ ?post = ?d"
    by (simp only: rev_append rev_rev_ident)
  then have "strip s @ ?post = ?d" by (simp only: strip_def)
  then have "s = ?pre @ strip s @ ?post" by (metis takeWhile_dropWhile_id)
  moreover have "\<forall>c\<in>set ?pre. isspace c" by (auto dest: set_takeWhileD)
  moreover have "\<forall>c\<in>set ?post. isspace c" by (auto dest: set_takeWhileD)
  ultimately show ?thesis by blast
qed

lemma strip_ends:
  assumes "strip s \<noteq> []"
  shows "\<not> isspace (hd (strip s)) \<and> \<not> isspace (last (strip s))"
proof -
  let ?d = "dropWhile isspace s"
  let ?e = "dropWhile isspace (rev ?d)"
  from assms have e: "?e \<noteq> []" by (simp only: strip_def rev_is_Nil_conv not_False_eq_True)
  have d: "?d \<noteq> []"
  proof
    assume "?d = []"
    then have "?e = []" by (simp only: rev.simps dropWhile.simps)
    with e show False by contradiction
  qed
  then have "\<not> isspace (hd ?d)" by (rule hd_dropWhile)
  then have "\<not> isspace (last (rev ?d))" using d by (simp add: last_rev)
  moreover have "rev ?d \<noteq> []" using d by (simp only: rev_is_Nil_conv not_False_eq_True)
  ultimately obtain x where "x \<in> set (rev ?d)" and "\<not> isspace x"
    using last_in_set by blast
  then have "last ?e = last (rev ?d)" by (rule dropWhile_last)
  then have "last ?e = hd ?d" using d by (simp add: last_rev)
  moreover have "hd (strip s) = last ?e" using e by (simp add: strip_def hd_rev)
  moreover have "last (strip s) = hd ?e" using e by (simp add: strip_def last_rev)
  moreover have "\<not> isspace (hd ?e)" using e by (rule hd_dropWhile)
  ultimately show ?thesis using \<open>\<not> isspace (hd ?d)\<close> by simp
qed

text \<open>
  Claim C7. \<^verbatim>\<open>fetch_trends\<close> uses the topic \<^verbatim>\<open>general\<close> when the text of the
  input field consists of whitespace only (or is empty), and otherwise the text
  with the whitespace at both ends removed: the input is that topic between two
  runs of whitespace, and the topic neither starts nor ends with whitespace. The
  work item handed to the thread pool carries this topic.
\<close>

theorem fetch_trends_topic:
  "((\<forall>c\<in>set (topic_input self). isspace c) \<longrightarrow>
      current_topic (fetch_trends self) = ''general'') \<and>
   (\<not> (\<forall>c\<in>set (topic_input self). isspace c) \<longrightarrow>
      current_topic (fetch_trends self) = strip (topic_input self) \<and>
      \<not> isspace (hd (strip (topic_input self))) \<and>
      \<not> isspace (last (strip (topic_input self)))) \<and>
   (\<exists>pre post. topic_input self = pre @ strip (topic_input self) @ post \<and>
      (\<forall>c\<in>set pre. isspace c) \<and> (\<forall>c\<in>set post. isspace c)) \<and>
   (\<exists>code. threadpool (fetch_trends self) =
      threadpool self @ [TrendWorker (current_topic (fetch_trends self)) (region_combo self) code])"
proof (intro conjI impI)
  assume "\<forall>c\<in>set (topic_input self). isspace c"
  then have "strip (topic_input self) = []" by (simp add: strip_Nil_iff)
  then show "current_topic (fetch_trends self) = ''general''"
    by (simp add: fetch_trends_def Let_def)
next
  assume "\<not> (\<forall>c\<in>set (topic_input self). isspace c)"
  then have ne: "strip (topic_input self) \<noteq> []" by (simp add: strip_Nil_iff)
  then show "current_topic (fetch_trends self) = strip (topic_input self)"
    by (simp add: fetch_trends_def Let_def)
  from ne show "\<not> isspace (hd (strip (topic_input self)))" by (simp add: strip_ends)
  from ne show "\<not> isspace (last (strip (topic_input self)))" by (simp add: strip_ends)
next
  show "\<exists>pre post. topic_input self = pre @ strip (topic_input self) @ post \<and>
      (\<forall>c\<in>set pre. isspace c) \<and> (\<forall>c\<in>set post. isspace c)"
    by (rule strip_decomposition)
next
  show "\<exists>code. threadpool (fetch_trends self) =
      threadpool self @ [TrendWorker (current_topic (fetch_trends self)) (region_combo self) code]"
    by (simp add: fetch_trends_def Let_def)
qed

theorem fetch_trends_topic_witness:
  "current_topic (fetch_trends (init_ui\<lparr>topic_input := ''   ''\<rparr>)) = ''general'' \<and>
   current_topic (fetch_trends (init_ui\<lparr>topic_input := ''  cooking ''\<rparr>)) = ''cooking''"
proof -
  have blank: "\<forall>c\<in>set (topic_input (init_ui\<lparr>topic_input := ''   ''\<rparr>)). isspace c"
    by (simp add: isspace_def)
  have "\<not> isspace CHR ''c''" by (simp add: isspace_def)
  then have nonblank: "\<not> (\<forall>c\<in>set (topic_input (init_ui\<lparr>topic_input := ''  cooking ''\<rparr>)). isspace c)"
    by simp
  have "strip ''  cooking '' = ''cooking''" by (simp add: strip_def isspace_def)
  with blank nonblank show ?thesis
    using fetch_trends_topic [of "init_ui\<lparr>topic_input := ''   ''\<rparr>"]
      fetch_trends_topic [of "init_ui\<lparr>topic_input := ''  cooking ''\<rparr>"]
    by simp
qed

section \<open>The current trend data\<close>

lemma handle_current_trend_data:
  "current_trend_data (handle self e) =
     (case e of emitted (data_generated d) \<Rightarrow> d | _ \<Rightarrow> current_trend_data self)"
  by (cases "(self, e)" rule: handle.cases)
    (simp_all add: fetch_trends_def generate_veo_prompt_def copy_veo_prompt_def display_trends_def
      display_veo_prompt_def display_error_message_box_def Let_def)

lemma generated_append: "generated (es @ [e]) =
   generated es @ (case e of emitted (data_generated d) \<Rightarrow> [d] | _ \<Rightarrow> [])"
  by (induction es rule: generated.induct) (auto split: event.splits signal.splits)

lemma foldl_handle_current_trend_data:
  "current_trend_data (foldl handle self es) =
     (if generated es = [] then current_trend_data self else last (generated es))"
proof (induction es rule: rev_induct)
  case Nil
  then show ?case by simp
next
  case (snoc e es)
  then show ?case
    by (simp add: handle_current_trend_data generated_append split: event.splits signal.splits)
qed

lemma run_data_generated:
  assumes "run env w = data_generated d"
  shows "\<exists>topic rn rc. w = TrendWorker topic rn rc \<and>
           generate_trends_with_llm env topic rn rc = Inr (JObj d) \<and> d \<noteq> []"
proof (cases w)
  case (TrendWorker topic rn rc)
  with assms have "trend_worker_run env topic rn rc = data_generated d" by simp
  then have "generate_trends_with_llm env topic rn rc = Inr (JObj d) \<and> d \<noteq> []"
    by (auto simp: trend_worker_run_def split: sum.splits if_splits json.splits)
  with TrendWorker show ?thesis by blast
next
  case (VeoPromptWorker td topic rn)
  with assms have "veo_prompt_worker_run env td topic rn = data_generated d" by simp
  then have False
    by (auto simp: veo_prompt_worker_run_def split: sum.splits if_splits json.splits)
  then show ?thesis ..
qed

lemma trend_worker_run_env_trends_ok:
  "trend_worker_run env_trends_ok ''general'' ''United States'' ''US'' =
     data_generated example_trend_data"
  by (simp add: trend_worker_run_def generate_trends_with_llm_def call_gemini_api_def
      env_trends_ok_def env_of_bodies_def raise_for_status_def response_json_def extract_reply_def
      has_parts_def response_text_def gemini_reply_def trends_response_schema_def
      example_trend_data_def)

lemma trend_worker_run_env_offline:
  "trend_worker_run env_offline ''general'' ''United States'' ''US'' =
     error_occurred ''Error during LLM trend data generation: <exception>''"
  by (simp add: trend_worker_run_def generate_trends_with_llm_def call_gemini_api_def
      env_offline_def)

lemma init_fields:
  "current_trend_data init = []"
  "threadpool init = [TrendWorker ''general'' ''United States'' ''US'']"
  "generate_veo_button init = False"
  "message_boxes init = []"
  by (simp_all add: init_def init_ui_def fetch_trends_def Let_def strip_def isspace_def REGIONS_def)

text \<open>
  Claim C8. Whatever the event loop delivers, \<^verbatim>\<open>current_trend_data\<close> afterwards is
  the whole dictionary carried by the signal \<^verbatim>\<open>data_generated\<close> if the event is that
  signal, and is unchanged otherwise: clicks, \<^verbatim>\<open>error_occurred\<close> and
  \<^verbatim>\<open>prompt_generated\<close> leave it as it was. After a sequence of events it is the
  dictionary of the last \<^verbatim>\<open>data_generated\<close>, or the initial one. Only a
  \<^verbatim>\<open>TrendWorker\<close> whose call returned a non-empty dictionary emits
  \<^verbatim>\<open>data_generated\<close>, and it emits that dictionary.
\<close>

theorem current_trend_data_only_by_success:
  "current_trend_data (handle self e) =
     (case e of emitted (data_generated d) \<Rightarrow> d | _ \<Rightarrow> current_trend_data self) \<and>
   current_trend_data (foldl handle self es) =
     (if generated es = [] then current_trend_data self else last (generated es)) \<and>
   (run env w = data_generated d' \<longrightarrow>
      (\<exists>topic rn rc. w = TrendWorker topic rn rc \<and>
         generate_trends_with_llm env topic rn rc = Inr (JObj d') \<and> d' \<noteq> []))"
  using handle_current_trend_data foldl_handle_current_trend_data run_data_generated by blast

theorem current_trend_data_only_by_success_witness:
  "run env_trends_ok (TrendWorker ''general'' ''United States'' ''US'') =
     data_generated example_trend_data \<and>
   generate_trends_with_llm env_trends_ok ''general'' ''United States'' ''US'' =
     Inr (JObj example_trend_data) \<and>
   current_trend_data init = [] \<and>
   current_trend_data
     (foldl handle init
        [emitted (error_occurred ''failed''),
         fetch_clicked,
         emitted (run env_trends_ok (TrendWorker ''general'' ''United States'' ''US'')),
         generate_veo_clicked,
         emitted (error_occurred ''failed'')]) = example_trend_data"
  using current_trend_data_only_by_success
    [of init "emitted (error_occurred ''failed'')"
        "[emitted (error_occurred ''failed''),
         fetch_clicked,
         emitted (run env_trends_ok (TrendWorker ''general'' ''United States'' ''US'')),
         generate_veo_clicked,
         emitted (error_occurred ''failed'')]"
        env_trends_ok "TrendWorker ''general'' ''United States'' ''US''" example_trend_data]
  by (simp add: trend_worker_run_env_trends_ok init_fields)

section \<open>A video prompt without trend data\<close>

lemma generate_veo_prompt_with_trend_data:
  "current_trend_data self \<noteq> [] \<Longrightarrow>
   threadpool (generate_veo_prompt self) =
     threadpool self @
       [VeoPromptWorker (current_trend_data self) (current_topic self) (current_region_name self)]"
  by (simp add: generate_veo_prompt_def)

text \<open>
  Claim C6. When \<^verbatim>\<open>current_trend_data\<close> is empty, \<^verbatim>\<open>generate_veo_prompt\<close> does
  what \<^verbatim>\<open>display_error_message_box\<close> does with the fixed local message and nothing
  else: one more dialog with that message, no work item handed to the thread
  pool (so no worker runs and no request is sent), the trend data still empty.
\<close>

theorem generate_veo_prompt_without_trend_data:
  assumes "current_trend_data self = []"
  shows "generate_veo_prompt self = display_error_message_box self no_trend_data_message \<and>
         threadpool (generate_veo_prompt self) = threadpool self \<and>
         message_boxes (generate_veo_prompt self) =
           message_boxes self @
             [(''Operation Error'', ''An error occurred during AI processing.'',
               ''No trend data available to generate a video prompt. Please generate trends first.'')] \<and>
         current_trend_data (generate_veo_prompt self) = []"
  using assms
  by (simp add: generate_veo_prompt_def display_error_message_box_def no_trend_data_message_def)

theorem generate_veo_prompt_without_trend_data_witness:
  "threadpool (generate_veo_prompt (display_error_message_box init ''failed'')) = threadpool init \<and>
   message_boxes (generate_veo_prompt (display_error_message_box init ''failed'')) =
     [(''Operation Error'', ''An error occurred during AI processing.'', ''failed''),
      (''Operation Error'', ''An error occurred during AI processing.'',
       ''No trend data available to generate a video prompt. Please generate trends first.'')]"
proof -
  have "current_trend_data (display_error_message_box init ''failed'') = []"
    by (simp add: display_error_message_box_def init_fields)
  from generate_veo_prompt_without_trend_data [OF this] show ?thesis
    by (simp add: display_error_message_box_def init_fields no_trend_data_message_def)
qed

section \<open>The controls after an error\<close>

text \<open>
  Claim C1, as amended. \<^verbatim>\<open>display_error_message_box\<close> enables the button that
  generates trends and the button that creates a video prompt, and disables the
  copy button, whether or not trend data exist; it changes neither the trend data
  nor the thread pool.
\<close>

theorem error_handler_enables_video_button:
  "fetch_button (display_error_message_box self message) \<and>
   generate_veo_button (display_error_message_box self message) \<and>
   \<not> copy_prompt_button (display_error_message_box self message) \<and>
   current_trend_data (display_error_message_box self message) = current_trend_data self \<and>
   threadpool (display_error_message_box self message) = threadpool self"
  by (simp add: display_error_message_box_def)

text \<open>
  Against claim C1 as stated: the window starts with one \<^verbatim>\<open>TrendWorker\<close> queued and
  the video-prompt button disabled; when the server cannot be reached the worker
  emits \<^verbatim>\<open>error_occurred\<close>, and after the handler there are still no trend data
  and the video-prompt button is enabled.
\<close>

theorem video_button_enabled_after_failed_trends:
  "threadpool init = [TrendWorker ''general'' ''United States'' ''US''] \<and>
   \<not> generate_veo_button init \<and>
   run env_offline (TrendWorker ''general'' ''United States'' ''US'') =
     error_occurred ''Error during LLM trend data generation: <exception>'' \<and>
   current_trend_data
     (handle init (emitted (run env_offline (TrendWorker ''general'' ''United States'' ''US'')))) = [] \<and>
   generate_veo_button
     (handle init (emitted (run env_offline (TrendWorker ''general'' ''United States'' ''US''))))"
  by (simp add: trend_worker_run_env_offline display_error_message_box_def init_fields)

section \<open>Rendering the trends\<close>

text \<open>
  The rendering of \<^verbatim>\<open>display_trends\<close> succeeds on the example trend set, and
  raises \<^verbatim>\<open>IndexError\<close> at line 413 when there are exactly two hashtags.
\<close>

lemma render_trends_two_hashtags:
  "render_trends [(''tiktok_hashtags'', JArr [JStr ''#a'', JStr ''#b''])] = Inl IndexError"
  by (simp add: render_trends_def get_or_empty_def)

lemma render_trends_example: "render_trends example_trend_data = Inr ()"
  by (simp add: render_trends_def get_or_empty_def example_trend_data_def)

end
